theory Spec2Isabelle
  imports Main
begin

section \<open>The notebook document\<close>

text \<open>
  The repository holds one file, \<^verbatim>\<open>workshop_template.ipynb\<close>, a Jupyter notebook in
  nbformat 4.2.  A notebook is a list of cells; the \<^verbatim>\<open>source\<close> of a cell is a list of
  strings whose concatenation is the text of the cell.  A code cell also stores the
  execution counter and the outputs of its last run.  The metadata of both cells is
  empty in the file and is left out.
\<close>

datatype cell_output =
    Stream string string
  | Execute_result string
  | Error_output string string

datatype cell =
    Markdown_cell (source: "string list")
  | Code_cell (source: "string list") (execution_count: "nat option") (outputs: "cell_output list")

record kernelspec =
  display_name :: string
  language :: string
  kernel_name :: string

record language_info =
  language_name :: string
  version :: string

record notebook =
  cells :: "cell list"
  kernel :: kernelspec
  lang :: language_info
  nbformat :: nat
  nbformat_minor :: nat

text \<open>The first cell: the markdown problem statement, line by line as stored.\<close>

definition problem_statement :: "string list" where
  "problem_statement =
    [''### Problem Statement\<newline>'',
     ''---\<newline>'',
     ''SSVEP Classification Using EEG: Developing and Testing a Classifier for Frequency-Based Stimuli Detection\<newline>'',
     ''\<newline>'',
     ''#### Background\<newline>'',
     ''---\<newline>'',
     ''Steady-State Visual Evoked Potentials (SSVEP) are responses generated in the brain when a subject views a visual stimulus flickering at a constant frequency. \<newline>'',
     ''\<newline>'',
     ''These responses can be detected via Electroencephalography (EEG) and are commonly used in Brain-Computer Interface (BCI) applications, such as controlling external devices or interfaces. \<newline>'',
     ''\<newline>'',
     ''The NeuroPawn headset and the NeuroPawn Knight Board are wearable EEG devices capable of capturing brain signals, while the NeuroPawn SSVEP GUI provides a customizable visual stimulus presentation platform for generating SSVEPs at multiple frequencies.\<newline>'',
     ''\<newline>'',
     ''#### Objective\<newline>'',
     ''---\<newline>'',
     ''The objective of this project is to design, develop, and test a robust EEG classifier for SSVEP detection. \<newline>'',
     ''\<newline>'',
     ''The classifier should accurately identify the specific frequency of the visual stimulus viewed by the subject based on EEG data. \<newline>'',
     ''\<newline>'',
     ''The classifier will be trained on data acquired from the NeuroPawn headset during an SSVEP experiment, with the ultimate goal of achieving high classification accuracy across multiple SSVEP frequencies.\<newline>'',
     ''\<newline>'',
     ''#### Scope\<newline>'',
     ''---\<newline>'',
     ''- **Establishing Connection**: Setting up a Python-based connection to the NeuroPawn Knight Board to stream EEG data.\<newline>'',
     ''\<newline>'',
     ''- **Data Acquisition**: Acquiring real-time EEG data during an SSVEP experiment using the NeuroPawn headset.\<newline>'',
     ''\<newline>'',
     ''- **Signal Processing**: Processing the EEG data to filter noise, remove artifacts, and extract meaningful features for classification.\<newline>'',
     ''\<newline>'',
     ''- **Classifier Development**: Designing a classifier capable of distinguishing between EEG signals elicited by different SSVEP frequencies.\<newline>'',
     ''\<newline>'',
     ''- **Testing and Evaluation**: Evaluating classifier performance to ensure accuracy and reliability across various frequencies.\<newline>'',
     ''\<newline>'',
     ''\<newline>'',
     ''#### Requirements\<newline>'',
     ''---\<newline>'',
     ''- Using Python, establish a connection to the NeuroPawn Knight Board.\<newline>'',
     ''\<newline>'',
     ''- Acquire and store EEG data in real time.\<newline>'',
     ''\<newline>'',
     ''- Implement preprocessing steps for the EEG data, such asfrequency filtering and artifact removal.\<newline>'',
     ''\<newline>'',
     ''- Develop a classifier (e.g., SVM, CNN, or other ML models) trained on features specific to SSVEP frequencies (with either scikit-learn or brainflow.ml_model)\<newline>'',
     ''\<newline>'',
     ''- Classify EEG signals in real-time\<newline>'',
     ''\<newline>'',
     ''- (Optional) Evaluate classifier performance using appropriate metrics (e.g., accuracy, precision, recall) and optimize for high classification accuracy.'']"

text \<open>The second cell: the only code of the notebook.\<close>

definition imports_source :: "string list" where
  "imports_source =
    [''import numpy as np\<newline>'',
     ''from brainflow.board_shim import BoardShim, BrainFlowInputParams, BoardIds\<newline>'',
     ''from brainflow.data_filter import DataFilter, FilterTypes, DetrendOperations, WindowOperations'']"


definition markdown_cell :: cell where
  "markdown_cell = Markdown_cell problem_statement"

definition code_cell :: cell where
  "code_cell = Code_cell imports_source None []"

definition workshop_template :: notebook where
  "workshop_template =
    \<lparr>cells = [markdown_cell, code_cell],
     kernel = \<lparr>display_name = ''NeuroPawn-GUI'', language = ''python'', kernel_name = ''python3''\<rparr>,
     lang = \<lparr>language_name = ''python'', version = ''3.9.19''\<rparr>,
     nbformat = 4,
     nbformat_minor = 2\<rparr>"

definition repository :: "(string \<times> notebook) list" where
  "repository = [(''workshop_template.ipynb'', workshop_template)]"

fun is_code :: "cell \<Rightarrow> bool" where
  "is_code (Code_cell s n outs) = True"
| "is_code (Markdown_cell s) = False"

text \<open>The program of a notebook: the text of its code cells, in order.\<close>

definition cell_text :: "cell \<Rightarrow> string" where
  "cell_text c = concat (source c)"

definition code_cells :: "notebook \<Rightarrow> cell list" where
  "code_cells nb = filter is_code (cells nb)"


section \<open>Lexical structure of the code\<close>

text \<open>
  The tokens of Python that a simple import statement is made of: names, keywords and
  one-character operators and delimiters.  A word that starts with a digit is a number.
  String literals and comments are not lexed: their delimiters come out as operator
  tokens, which no rule of the grammar below accepts.
\<close>

datatype token = NAME string | KEYWORD string | NUMBER string | OP char

definition kwlist :: "string list" where
  "kwlist =
    [''False'', ''None'', ''True'', ''and'', ''as'', ''assert'', ''async'', ''await'',
     ''break'', ''class'', ''continue'', ''def'', ''del'', ''elif'', ''else'', ''except'',
     ''finally'', ''for'', ''from'', ''global'', ''if'', ''import'', ''in'', ''is'',
     ''lambda'', ''nonlocal'', ''not'', ''or'', ''pass'', ''raise'', ''return'', ''try'',
     ''while'', ''with'', ''yield'']"

definition is_digit :: "char \<Rightarrow> bool" where
  "is_digit c = (let n = (of_char c :: nat) in 48 \<le> n \<and> n \<le> 57)"

definition is_ident_char :: "char \<Rightarrow> bool" where
  "is_ident_char c =
     (let n = (of_char c :: nat)
      in (65 \<le> n \<and> n \<le> 90) \<or> (97 \<le> n \<and> n \<le> 122) \<or> n = 95 \<or> is_digit c)"

definition is_space :: "char \<Rightarrow> bool" where
  "is_space c = (c = CHR '' '' \<or> c = CHR 0x09 \<or> c = CHR 0x0D)"

fun word_token :: "string \<Rightarrow> token list" where
  "word_token [] = []"
| "word_token (c # cs) =
     (if c # cs \<in> set kwlist then [KEYWORD (c # cs)]
      else if is_digit c then [NUMBER (c # cs)]
      else [NAME (c # cs)])"

text \<open>
  \<open>lex acc s\<close> scans \<open>s\<close> with the characters of the word being read in \<open>acc\<close>,
  most recent first.
\<close>

fun lex :: "string \<Rightarrow> string \<Rightarrow> token list" where
  "lex acc [] = word_token (rev acc)"
| "lex acc (c # cs) =
     (if is_ident_char c then lex (c # acc) cs
      else word_token (rev acc) @ (if is_space c then [] else [OP c]) @ lex [] cs)"

definition tokenize :: "string \<Rightarrow> token list" where
  "tokenize s = lex [] s"

text \<open>Cutting a list at every occurrence of a separator; empty pieces are kept.\<close>

fun split_on :: "'a \<Rightarrow> 'a list \<Rightarrow> 'a list list" where
  "split_on s [] = [[]]"
| "split_on s (x # xs) =
     (case split_on s xs of
        [] \<Rightarrow> [[x]]
      | seg # segs \<Rightarrow> if x = s then [] # seg # segs else (x # seg) # segs)"

text \<open>
  The physical lines of a text.  Blank lines carry no statement.  No statement of the
  fragment spans lines, and a statement at the top level is not indented.
\<close>

definition physical_lines :: "string \<Rightarrow> string list" where
  "physical_lines s = filter (\<lambda>l. \<not> list_all is_space l) (split_on CHR ''\<newline>'' s)"

fun indented :: "string \<Rightarrow> bool" where
  "indented [] = False"
| "indented (c # cs) = is_space c"

definition tokens_of :: "string \<Rightarrow> token list" where
  "tokens_of s = concat (map tokenize (physical_lines s))"

section \<open>Import statements\<close>

text \<open>
  The grammar of the two import forms, without relative imports, parenthesised
  name lists and the star form:

  \<^item> \<^verbatim>\<open>import dotted_name [as NAME] (, dotted_name [as NAME])*\<close>
  \<^item> \<^verbatim>\<open>from dotted_name import NAME [as NAME] (, NAME [as NAME])*\<close>

  A line of tokens that is not of one of these forms has no parse.
\<close>

datatype py_alias = Alias (name: string) (asname: "string option")

datatype stmt =
    Import "py_alias list"
  | ImportFrom (module: string) (names: "py_alias list")

fun dotted_name :: "token list \<Rightarrow> string option" where
  "dotted_name [NAME a] = Some a"
| "dotted_name (NAME a # OP d # ts) =
     (if d = CHR ''.'' then map_option (\<lambda>b. a @ ''.'' @ b) (dotted_name ts) else None)"
| "dotted_name ts = None"

definition dotted_as_name :: "token list \<Rightarrow> py_alias option" where
  "dotted_as_name ts =
     (case split_on (KEYWORD ''as'') ts of
        [d] \<Rightarrow> map_option (\<lambda>m. Alias m None) (dotted_name d)
      | [d, [NAME b]] \<Rightarrow> map_option (\<lambda>m. Alias m (Some b)) (dotted_name d)
      | _ \<Rightarrow> None)"

definition import_as_name :: "token list \<Rightarrow> py_alias option" where
  "import_as_name ts =
     (case split_on (KEYWORD ''as'') ts of
        [[NAME a]] \<Rightarrow> Some (Alias a None)
      | [[NAME a], [NAME b]] \<Rightarrow> Some (Alias a (Some b))
      | _ \<Rightarrow> None)"

definition import_stmt :: "token list \<Rightarrow> stmt option" where
  "import_stmt ts =
     (case ts of
        KEYWORD k # rest \<Rightarrow>
          if k = ''import'' then
            map_option Import (those (map dotted_as_name (split_on (OP CHR '','') rest)))
          else if k = ''from'' then
            (case split_on (KEYWORD ''import'') rest of
               [m, ns] \<Rightarrow>
                 (case dotted_name m of
                    None \<Rightarrow> None
                  | Some mn \<Rightarrow>
                      map_option (ImportFrom mn)
                        (those (map import_as_name (split_on (OP CHR '','') ns))))
             | _ \<Rightarrow> None)
          else None
      | _ \<Rightarrow> None)"

definition parse_line :: "string \<Rightarrow> stmt option" where
  "parse_line l = (if indented l then None else import_stmt (tokenize l))"

definition parse_program :: "string \<Rightarrow> stmt list option" where
  "parse_program s = those (map parse_line (physical_lines s))"

text \<open>The statements of a notebook, cell by cell, and how many there are.\<close>

definition program :: "notebook \<Rightarrow> stmt list list option" where
  "program nb = those (map (\<lambda>c. parse_program (cell_text c)) (code_cells nb))"

definition import_statement_count :: "notebook \<Rightarrow> nat" where
  "import_statement_count nb = (case program nb of None \<Rightarrow> 0 | Some ps \<Rightarrow> length (concat ps))"

definition code_tokens :: "notebook \<Rightarrow> token list" where
  "code_tokens nb = concat (map (\<lambda>c. tokens_of (cell_text c)) (code_cells nb))"

text \<open>
  The tokens that open a definition: a function, a class, an anonymous function, or
  the binding of a name by assignment.
\<close>

definition defining_tokens :: "token list" where
  "defining_tokens = [KEYWORD ''def'', KEYWORD ''class'', KEYWORD ''lambda'', OP CHR ''='']"

definition has_token :: "token list \<Rightarrow> token \<Rightarrow> bool" where
  "has_token ts t = (t \<in> set ts)"

section \<open>Execution\<close>

text \<open>
  The modules that can be imported are not part of the repository.  They are a
  parameter of execution: a table from the dotted name of a module to the names it
  exports, \<open>None\<close> for a module that is not installed.  In this first execution
  loading a module is one step that only records the module as loaded.
\<close>

type_synonym module_table = "string \<Rightarrow> string list option"

datatype pyvalue = Module_object string | Module_attribute string string

datatype exn = Exn (ename: string) (evalue: string)

record pystate =
  globals :: "string \<rightharpoonup> pyvalue"
  loaded :: "string list"


definition store_name :: "string \<Rightarrow> pyvalue \<Rightarrow> 'a pystate_scheme \<Rightarrow> 'a pystate_scheme" where
  "store_name n v st = st\<lparr>globals := (globals st)(n \<mapsto> v)\<rparr>"

text \<open>A module is loaded after the packages that contain it, outermost first.\<close>

fun packages_from :: "string \<Rightarrow> string list \<Rightarrow> string list" where
  "packages_from pre [] = []"
| "packages_from pre (p # ps) =
     (let q = (if pre = [] then p else pre @ ''.'' @ p) in q # packages_from q ps)"

definition packages :: "string \<Rightarrow> string list" where
  "packages m = packages_from [] (split_on CHR ''.'' m)"

definition top_package :: "string \<Rightarrow> string" where
  "top_package m = takeWhile (\<lambda>c. c \<noteq> CHR ''.'') m"

definition quoted :: "string \<Rightarrow> string" where
  "quoted s = [CHR 0x27] @ s @ [CHR 0x27]"

text \<open>
  Loading stops at the first module that is missing; what was loaded before stays
  loaded.  A module that is loaded already is not loaded again.
\<close>

fun load_modules :: "module_table \<Rightarrow> string list \<Rightarrow> string list \<Rightarrow> string list \<times> exn option" where
  "load_modules mt [] ld = (ld, None)"
| "load_modules mt (m # ms) ld =
     (if m \<in> set ld then load_modules mt ms ld
      else case mt m of
             None \<Rightarrow> (ld, Some (Exn ''ModuleNotFoundError'' (''No module named '' @ quoted m)))
           | Some ex \<Rightarrow> load_modules mt ms (ld @ [m]))"

text \<open>Running a list of steps in order, up to the first exception.\<close>

fun run_all :: "('a \<Rightarrow> 's \<Rightarrow> 's \<times> exn option) \<Rightarrow> 'a list \<Rightarrow> 's \<Rightarrow> 's \<times> exn option" where
  "run_all f [] st = (st, None)"
| "run_all f (x # xs) st =
     (case f x st of
        (st', None) \<Rightarrow> run_all f xs st'
      | (st', Some e) \<Rightarrow> (st', Some e))"

text \<open>
  \<^verbatim>\<open>import a.b.c as d\<close> binds \<open>d\<close> to the module \<open>a.b.c\<close>; without \<^verbatim>\<open>as\<close>
  it binds \<open>a\<close> to the outermost package.
\<close>

fun import_name :: "module_table \<Rightarrow> py_alias \<Rightarrow> pystate \<Rightarrow> pystate \<times> exn option" where
  "import_name mt (Alias m a) st =
     (case load_modules mt (packages m) (loaded st) of
        (ld, Some e) \<Rightarrow> (st\<lparr>loaded := ld\<rparr>, Some e)
      | (ld, None) \<Rightarrow>
          (case a of
             None \<Rightarrow> (store_name (top_package m) (Module_object (top_package m)) (st\<lparr>loaded := ld\<rparr>), None)
           | Some b \<Rightarrow> (store_name b (Module_object m) (st\<lparr>loaded := ld\<rparr>), None)))"

text \<open>
  \<^verbatim>\<open>from m import n as b\<close> binds \<open>b\<close> (or \<open>n\<close>) to the attribute \<open>n\<close> of the loaded
  module \<open>m\<close>; when \<open>m\<close> has no such attribute, to the submodule \<open>m.n\<close> if there is
  one, and raises \<^verbatim>\<open>ImportError\<close> otherwise.
\<close>

definition target :: "py_alias \<Rightarrow> string" where
  "target a = (case asname a of None \<Rightarrow> name a | Some b \<Rightarrow> b)"

definition import_from :: "module_table \<Rightarrow> string \<Rightarrow> py_alias \<Rightarrow> pystate \<Rightarrow> pystate \<times> exn option" where
  "import_from mt m a st =
     (let missing = Exn ''ImportError''
            (''cannot import name '' @ quoted (name a) @ '' from '' @ quoted m)
      in case mt m of
           None \<Rightarrow> (st, Some missing)
         | Some ex \<Rightarrow>
             if name a \<in> set ex
             then (store_name (target a) (Module_attribute m (name a)) st, None)
             else (case load_modules mt [m @ ''.'' @ name a] (loaded st) of
                     (ld, Some e) \<Rightarrow> (st, Some missing)
                   | (ld, None) \<Rightarrow>
                       (store_name (target a) (Module_object (m @ ''.'' @ name a))
                          (st\<lparr>loaded := ld\<rparr>), None)))"

fun exec_stmt :: "module_table \<Rightarrow> stmt \<Rightarrow> pystate \<Rightarrow> pystate \<times> exn option" where
  "exec_stmt mt (Import as) st = run_all (import_name mt) as st"
| "exec_stmt mt (ImportFrom m as) st =
     (case load_modules mt (packages m) (loaded st) of
        (ld, Some e) \<Rightarrow> (st\<lparr>loaded := ld\<rparr>, Some e)
      | (ld, None) \<Rightarrow> run_all (import_from mt m) as (st\<lparr>loaded := ld\<rparr>))"

definition exec_program :: "module_table \<Rightarrow> stmt list \<Rightarrow> pystate \<Rightarrow> pystate \<times> exn option" where
  "exec_program mt prog st = run_all (exec_stmt mt) prog st"

text \<open>
  Running a cell in a notebook stores the execution counter and the outputs in the
  cell.  A run that ends in an exception has one error output; import statements
  write nothing else.  A markdown cell does not execute.  The result is \<open>None\<close>
  for a code cell whose text is outside the fragment.
\<close>

fun run_cell :: "module_table \<Rightarrow> nat \<Rightarrow> cell \<Rightarrow> pystate \<Rightarrow> (cell \<times> pystate) option" where
  "run_cell mt n (Markdown_cell s) st = Some (Markdown_cell s, st)"
| "run_cell mt n (Code_cell s k outs) st =
     (case parse_program (concat s) of
        None \<Rightarrow> None
      | Some prog \<Rightarrow>
          (case exec_program mt prog st of
             (st', None) \<Rightarrow> Some (Code_cell s (Some n) [], st')
           | (st', Some e) \<Rightarrow> Some (Code_cell s (Some n) [Error_output (ename e) (evalue e)], st')))"

section \<open>Uses of names\<close>





section \<open>Occurrences of a word in a text\<close>

fun starts_with :: "'a list \<Rightarrow> 'a list \<Rightarrow> bool" where
  "starts_with [] s = True"
| "starts_with (p # ps) [] = False"
| "starts_with (p # ps) (c # cs) = (p = c \<and> starts_with ps cs)"

fun occurs_in :: "'a list \<Rightarrow> 'a list \<Rightarrow> bool" where
  "occurs_in p [] = (p = [])"
| "occurs_in p (c # cs) = (starts_with p (c # cs) \<or> occurs_in p cs)"




section \<open>Loading a module runs its body\<close>

text \<open>
  In the execution above a module is a list of exported names and loading it is one
  silent step.  A module of an installation has a body that runs when the module is
  first loaded: it loads further modules, and it may write to the standard output,
  act on the world outside the interpreter, or raise an exception.  The bodies belong
  to the installed libraries and not to the notebook, so they are a parameter too.
\<close>

datatype effect = Board_connection | Data_acquisition | Other_effect string

datatype action = Requires string | Prints string | Performs effect | Raises exn

record module_info =
  exported :: "string list"
  body :: "action list"

type_synonym environment = "(string \<times> module_info) list"

text \<open>
  The state of a run adds to the namespace and the loaded modules what the run has
  written and what it has done outside.  The names that the notebook kernel keeps
  for its input history are its own and are not part of the state.
\<close>

record runstate = pystate +
  stdout :: "string list"
  performed :: "effect list"

definition initial :: runstate where
  "initial = \<lparr>globals = Map.empty, loaded = [], stdout = [], performed = []\<rparr>"

text \<open>
  \<open>run_actions\<close> runs a list of pending actions.  A module that is required and not
  yet loaded is entered in the list of loaded modules first and its body is run before
  the rest, so that modules that require each other do not load forever.  An exception
  ends the run.  The run terminates because each newly loaded module leaves fewer
  modules of the installation to load.
\<close>

definition unloaded :: "environment \<Rightarrow> string list \<Rightarrow> nat" where
  "unloaded env ld = length (filter (\<lambda>k. k \<notin> set ld) (map fst env))"

function run_actions :: "environment \<Rightarrow> action list \<Rightarrow> runstate \<Rightarrow> runstate \<times> exn option" where
  "run_actions env [] st = (st, None)"
| "run_actions env (Requires m # as) st =
     (if m \<in> set (loaded st) then run_actions env as st
      else case map_of env m of
             None \<Rightarrow> (st, Some (Exn ''ModuleNotFoundError'' (''No module named '' @ quoted m)))
           | Some mi \<Rightarrow> run_actions env (body mi @ as) (st\<lparr>loaded := loaded st @ [m]\<rparr>))"
| "run_actions env (Prints s # as) st = run_actions env as (st\<lparr>stdout := stdout st @ [s]\<rparr>)"
| "run_actions env (Performs e # as) st = run_actions env as (st\<lparr>performed := performed st @ [e]\<rparr>)"
| "run_actions env (Raises e # as) st = (st, Some e)"
  by pat_completeness auto

termination run_actions
proof -
  have less: "unloaded env (ld @ [m]) < unloaded env ld"
    if "map_of env m = Some mi" and "m \<notin> set ld"
    for env :: environment and m mi ld
  proof -
    have m: "m \<in> set (filter (\<lambda>k. k \<notin> set ld) (map fst env))"
      using that map_of_SomeD [OF that(1)] by force
    have "filter (\<lambda>k. k \<notin> set (ld @ [m])) (map fst env)
          = filter (\<lambda>k. k \<noteq> m) (filter (\<lambda>k. k \<notin> set ld) (map fst env))"
      by (simp add: conj_commute)
    then show ?thesis
      unfolding unloaded_def using length_filter_less [OF m, of "\<lambda>k. k \<noteq> m"] by simp
  qed
  show ?thesis
    by (relation "measures [\<lambda>(env, as, st). unloaded env (loaded st), \<lambda>(env, as, st). length as]")
       (auto simp: less)
qed

definition load_env :: "environment \<Rightarrow> string list \<Rightarrow> runstate \<Rightarrow> runstate \<times> exn option" where
  "load_env env ms st = run_actions env (map Requires ms) st"

text \<open>
  The two import statements over an installation.  They differ from the execution
  above in that loading runs bodies, and an exception of a body is passed on as it is.
\<close>

fun import_name_env :: "environment \<Rightarrow> py_alias \<Rightarrow> runstate \<Rightarrow> runstate \<times> exn option" where
  "import_name_env env (Alias m a) st =
     (case load_env env (packages m) st of
        (st', Some e) \<Rightarrow> (st', Some e)
      | (st', None) \<Rightarrow>
          (case a of
             None \<Rightarrow> (store_name (top_package m) (Module_object (top_package m)) st', None)
           | Some b \<Rightarrow> (store_name b (Module_object m) st', None)))"

definition import_from_env :: "environment \<Rightarrow> string \<Rightarrow> py_alias \<Rightarrow> runstate \<Rightarrow> runstate \<times> exn option" where
  "import_from_env env m a st =
     (let missing = Exn ''ImportError''
            (''cannot import name '' @ quoted (name a) @ '' from '' @ quoted m)
      in case map_of env m of
           None \<Rightarrow> (st, Some missing)
         | Some mi \<Rightarrow>
             if name a \<in> set (exported mi)
             then (store_name (target a) (Module_attribute m (name a)) st, None)
             else if m @ ''.'' @ name a \<notin> set (loaded st) \<and> map_of env (m @ ''.'' @ name a) = None
             then (st, Some missing)
             else (case load_env env [m @ ''.'' @ name a] st of
                     (st', Some e) \<Rightarrow> (st', Some e)
                   | (st', None) \<Rightarrow>
                       (store_name (target a) (Module_object (m @ ''.'' @ name a)) st', None)))"

fun exec_stmt_env :: "environment \<Rightarrow> stmt \<Rightarrow> runstate \<Rightarrow> runstate \<times> exn option" where
  "exec_stmt_env env (Import as) st = run_all (import_name_env env) as st"
| "exec_stmt_env env (ImportFrom m as) st =
     (case load_env env (packages m) st of
        (st', Some e) \<Rightarrow> (st', Some e)
      | (st', None) \<Rightarrow> run_all (import_from_env env m) as st')"

definition exec_env :: "environment \<Rightarrow> stmt list \<Rightarrow> runstate \<Rightarrow> runstate \<times> exn option" where
  "exec_env env prog st = run_all (exec_stmt_env env) prog st"

text \<open>
  A run of a cell starts with an empty output.  The outputs of the cell are what the
  run wrote, followed by the error if the run ended in an exception.
\<close>

definition run_outputs :: "string list \<Rightarrow> exn option \<Rightarrow> cell_output list" where
  "run_outputs out r =
     map (Stream ''stdout'') out @
     (case r of None \<Rightarrow> [] | Some e \<Rightarrow> [Error_output (ename e) (evalue e)])"

fun execute_cell :: "environment \<Rightarrow> nat \<Rightarrow> cell \<Rightarrow> runstate \<Rightarrow> (cell \<times> runstate) option" where
  "execute_cell env n (Markdown_cell s) st = Some (Markdown_cell s, st)"
| "execute_cell env n (Code_cell s k outs) st =
     (case parse_program (concat s) of
        None \<Rightarrow> None
      | Some prog \<Rightarrow>
          (case exec_env env prog (st\<lparr>stdout := []\<rparr>) of
             (st', r) \<Rightarrow> Some (Code_cell s (Some n) (run_outputs (stdout st') r), st')))"


section \<open>What a run changes\<close>













text \<open>
  A module that writes while it loads, as the module \<^verbatim>\<open>this\<close> of the standard library
  does, and a cell that imports it.
\<close>

definition printing_installation :: environment where
  "printing_installation =
    [(''this'', \<lparr>exported = [], body = [Prints ''The Zen of Python, by Tim Peters'']\<rparr>)]"

definition printing_cell :: cell where
  "printing_cell = Code_cell [''import this''] None []"

text \<open>
  An installation seen as a table of exported names, and the part of a run state
  that the execution over a table has.
\<close>

definition table_of :: "environment \<Rightarrow> module_table" where
  "table_of env m = map_option exported (map_of env m)"

definition bodies_empty :: "environment \<Rightarrow> bool" where
  "bodies_empty env = list_all (\<lambda>e. body (snd e) = []) env"

definition core :: "runstate \<Rightarrow> pystate" where
  "core st = \<lparr>globals = globals st, loaded = loaded st\<rparr>"

definition with_core :: "runstate \<Rightarrow> pystate \<times> exn option \<Rightarrow> runstate \<times> exn option" where
  "with_core st pr = (st\<lparr>globals := globals (fst pr), loaded := loaded (fst pr)\<rparr>, snd pr)"

section \<open>The code cell\<close>

text \<open>The syntax tree of the code cell; it is shown below to be the parse of its text.\<close>

definition imports_ast :: "stmt list" where
  "imports_ast =
    [Import [Alias ''numpy'' (Some ''np'')],
     ImportFrom ''brainflow.board_shim''
       [Alias ''BoardShim'' None, Alias ''BrainFlowInputParams'' None, Alias ''BoardIds'' None],
     ImportFrom ''brainflow.data_filter''
       [Alias ''DataFilter'' None, Alias ''FilterTypes'' None,
        Alias ''DetrendOperations'' None, Alias ''WindowOperations'' None]]"



section \<open>The text of the notebook, evaluated\<close>

text \<open>The code cell parses, and its parse is the three import statements.\<close>

lemma parse_imports_source: "parse_program (concat imports_source) = Some imports_ast"
  by code_simp

lemma program_workshop_template: "program workshop_template = Some [imports_ast]"
  by (simp add: program_def code_cells_def workshop_template_def markdown_cell_def code_cell_def
      cell_text_def parse_imports_source)

lemma code_tokens_workshop_template:
  "code_tokens workshop_template =
    [KEYWORD ''import'', NAME ''numpy'', KEYWORD ''as'', NAME ''np'',
     KEYWORD ''from'', NAME ''brainflow'', OP CHR ''.'', NAME ''board_shim'',
     KEYWORD ''import'', NAME ''BoardShim'', OP CHR '','',
     NAME ''BrainFlowInputParams'', OP CHR '','', NAME ''BoardIds'',
     KEYWORD ''from'', NAME ''brainflow'', OP CHR ''.'', NAME ''data_filter'',
     KEYWORD ''import'', NAME ''DataFilter'', OP CHR '','',
     NAME ''FilterTypes'', OP CHR '','', NAME ''DetrendOperations'',
     OP CHR '','', NAME ''WindowOperations'']"
  by code_simp





text \<open>The markdown cell opens with its heading.\<close>

lemma heading: "starts_with ''### Problem Statement'' (cell_text markdown_cell)"
  by code_simp


section \<open>What the functions compute\<close>

text \<open>\<open>occurs_in\<close> decides whether a word is a contiguous part of a text.\<close>

lemma starts_with_iff: "starts_with p s \<longleftrightarrow> (\<exists>b. s = p @ b)"
  by (induction p s rule: starts_with.induct) auto

lemma occurs_in_iff: "occurs_in p s \<longleftrightarrow> (\<exists>a b. s = a @ p @ b)"
proof (induction s)
  case Nil
  then show ?case by auto
next
  case (Cons c cs)
  show ?case
  proof
    assume "occurs_in p (c # cs)"
    then consider "starts_with p (c # cs)" | "occurs_in p cs" by auto
    then show "\<exists>a b. c # cs = a @ p @ b"
    proof cases
      case 1
      then obtain b where "c # cs = p @ b" using starts_with_iff by blast
      then have "c # cs = [] @ p @ b" by simp
      then show ?thesis by blast
    next
      case 2
      then obtain a b where "cs = a @ p @ b" using Cons.IH by blast
      then have "c # cs = (c # a) @ p @ b" by simp
      then show ?thesis by blast
    qed
  next
    assume "\<exists>a b. c # cs = a @ p @ b"
    then obtain a b where ab: "c # cs = a @ p @ b" by blast
    show "occurs_in p (c # cs)"
    proof (cases a)
      case Nil
      then have "starts_with p (c # cs)" using ab starts_with_iff by auto
      then show ?thesis by simp
    next
      case (Cons x xs)
      then have "cs = xs @ p @ b" using ab by simp
      then have "occurs_in p cs" using Cons.IH by blast
      then show ?thesis by simp
    qed
  qed
qed

text \<open>Only a line that opens with \<^verbatim>\<open>import\<close> or \<^verbatim>\<open>from\<close> has a parse.\<close>

lemma import_stmt_keyword:
  assumes "import_stmt ts = Some s"
  shows "\<exists>rest. ts = KEYWORD ''import'' # rest \<or> ts = KEYWORD ''from'' # rest"
  using assms
  by (auto simp: import_stmt_def split: list.splits token.splits if_splits)

subsection \<open>Exceptions of an execution\<close>








section \<open>Runs over an installation\<close>

subsection \<open>Running the pending actions\<close>














subsection \<open>Statements that raise nothing\<close>









subsection \<open>Runs of the code cell\<close>





text \<open>What a module writes while it loads is an output of the cell that imports it.\<close>

lemma run_printing_cell:
  "execute_cell printing_installation 1 printing_cell initial =
     Some (Code_cell [''import this''] (Some 1)
             [Stream ''stdout'' ''The Zen of Python, by Tim Peters''],
           \<lparr>globals = [''this'' \<mapsto> Module_object ''this''], loaded = [''this''],
            stdout = [''The Zen of Python, by Tim Peters''], performed = []\<rparr>)"
proof -
  have "parse_program ''import this'' = Some [Import [Alias ''this'' None]]"
    by code_simp
  moreover have "packages ''this'' = [''this'']" "top_package ''this'' = ''this''"
    by code_simp+
  ultimately show ?thesis
    by (simp add: printing_cell_def printing_installation_def exec_env_def load_env_def
        initial_def store_name_def run_outputs_def)
qed

subsection \<open>Agreement of the two executions\<close>

text \<open>
  Over an installation whose modules have empty bodies, the run over the installation
  is the execution over its table of exported names.
\<close>

lemma core_with_core: "core (fst (with_core st pr)) = fst pr"
  by (simp add: core_def with_core_def)

lemma with_core_again: "with_core (fst (with_core st pr)) qr = with_core st qr"
  by (simp add: with_core_def)

lemma with_core_core: "with_core st (core st, r) = (st, r)"
  by (simp add: with_core_def core_def)

lemma bodies_empty_lookup:
  "bodies_empty env \<Longrightarrow> map_of env m = Some mi \<Longrightarrow> body mi = []"
  by (force simp: bodies_empty_def list_all_iff dest: map_of_SomeD)

lemma load_env_empty_bodies:
  assumes "bodies_empty env"
  shows "load_env env ms st =
           (st\<lparr>loaded := fst (load_modules (table_of env) ms (loaded st))\<rparr>,
            snd (load_modules (table_of env) ms (loaded st)))"
proof (induction ms arbitrary: st)
  case Nil
  then show ?case by (simp add: load_env_def)
next
  case (Cons m ms)
  show ?case
  proof (cases "m \<in> set (loaded st)")
    case True
    then show ?thesis using Cons [of st] by (simp add: load_env_def)
  next
    case False
    show ?thesis
    proof (cases "map_of env m")
      case None
      then show ?thesis using False by (simp add: load_env_def table_of_def)
    next
      case (Some mi)
      then have "body mi = []" using assms bodies_empty_lookup by blast
      then show ?thesis
        using False Some Cons [of "st\<lparr>loaded := loaded st @ [m]\<rparr>"]
        by (simp add: load_env_def table_of_def)
    qed
  qed
qed

lemma import_name_env_empty_bodies:
  assumes "bodies_empty env"
  shows "import_name_env env a st = with_core st (import_name (table_of env) a (core st))"
proof -
  obtain m x where a: "a = Alias m x" by (cases a)
  obtain ld r where l: "load_modules (table_of env) (packages m) (loaded st) = (ld, r)"
    by (cases "load_modules (table_of env) (packages m) (loaded st)")
  show ?thesis
    using a l load_env_empty_bodies [OF assms, of "packages m" st]
    by (cases r; cases x) (simp_all add: with_core_def core_def store_name_def)
qed

lemma import_from_env_empty_bodies:
  assumes "bodies_empty env"
  shows "import_from_env env m a st = with_core st (import_from (table_of env) m a (core st))"
proof (cases "map_of env m")
  case None
  then show ?thesis
    by (simp add: import_from_env_def import_from_def table_of_def with_core_def core_def)
next
  case (Some mi)
  show ?thesis
  proof (cases "name a \<in> set (exported mi)")
    case True
    then show ?thesis using Some
      by (simp add: import_from_env_def import_from_def table_of_def with_core_def core_def
          store_name_def)
  next
    case False
    show ?thesis
    proof (cases "m @ ''.'' @ name a \<in> set (loaded st)")
      case True
      then show ?thesis using Some False
        by (simp add: import_from_env_def import_from_def table_of_def with_core_def core_def
            store_name_def load_env_def)
    next
      case unloaded: False
      show ?thesis
      proof (cases "map_of env (m @ ''.'' @ name a)")
        case None
        then show ?thesis using Some False unloaded
          by (simp add: import_from_env_def import_from_def table_of_def with_core_def core_def)
      next
        case sub: (Some smi)
        then have "body smi = []" using assms bodies_empty_lookup by blast
        then show ?thesis using Some False sub unloaded
          by (simp add: import_from_env_def import_from_def table_of_def with_core_def core_def
              store_name_def load_env_def)
      qed
    qed
  qed
qed

lemma run_all_with_core:
  assumes "\<And>x st. f x st = with_core st (g x (core st))"
  shows "run_all f xs st = with_core st (run_all g xs (core st))"
proof (induction xs arbitrary: st)
  case Nil
  then show ?case by (simp add: with_core_core)
next
  case (Cons x xs)
  obtain p r where g: "g x (core st) = (p, r)" by (cases "g x (core st)")
  show ?case
  proof (cases r)
    case None
    let ?s1 = "fst (with_core st (p, None))"
    have "f x st = (?s1, None)" using assms [of x st] g None by (simp add: with_core_def)
    moreover have "core ?s1 = p" using core_with_core [of st "(p, None)"] by simp
    ultimately show ?thesis
      using Cons [of ?s1] g None with_core_again [of st "(p, None)"] by simp
  next
    case (Some e)
    then show ?thesis using assms [of x st] g by (simp add: with_core_def)
  qed
qed

lemma exec_stmt_env_empty_bodies:
  assumes "bodies_empty env"
  shows "exec_stmt_env env s st = with_core st (exec_stmt (table_of env) s (core st))"
proof (cases s)
  case (Import as)
  then show ?thesis
    using run_all_with_core [of "import_name_env env" "import_name (table_of env)" as st]
      import_name_env_empty_bodies [OF assms] by simp
next
  case (ImportFrom m as)
  obtain ld r where l: "load_modules (table_of env) (packages m) (loaded st) = (ld, r)"
    by (cases "load_modules (table_of env) (packages m) (loaded st)")
  have le: "load_env env (packages m) st = (st\<lparr>loaded := ld\<rparr>, r)"
    using l load_env_empty_bodies [OF assms, of "packages m" st] by simp
  show ?thesis
  proof (cases r)
    case None
    have "run_all (import_from_env env m) as (st\<lparr>loaded := ld\<rparr>) =
            with_core (st\<lparr>loaded := ld\<rparr>)
              (run_all (import_from (table_of env) m) as (core (st\<lparr>loaded := ld\<rparr>)))"
      using run_all_with_core [of "import_from_env env m" "import_from (table_of env) m" as]
        import_from_env_empty_bodies [OF assms] by simp
    then show ?thesis using ImportFrom l le None by (simp add: with_core_def core_def)
  next
    case (Some e)
    then show ?thesis using ImportFrom l le by (simp add: with_core_def core_def)
  qed
qed

lemma exec_env_empty_bodies:
  assumes "bodies_empty env"
  shows "exec_env env prog st = with_core st (exec_program (table_of env) prog (core st))"
  unfolding exec_env_def exec_program_def
  using run_all_with_core [of "exec_stmt_env env" "exec_stmt (table_of env)" prog st]
    exec_stmt_env_empty_bodies [OF assms] by simp

lemma execute_cell_empty_bodies:
  assumes "bodies_empty env"
  shows "execute_cell env n (Code_cell s k outs) st =
           (case run_cell (table_of env) n (Code_cell s k outs) (core st) of
              None \<Rightarrow> None
            | Some (c, p) \<Rightarrow>
                Some (c, st\<lparr>globals := globals p, loaded := loaded p, stdout := []\<rparr>))"
proof (cases "parse_program (concat s)")
  case None
  then show ?thesis by simp
next
  case (Some prog)
  obtain p r where x: "exec_program (table_of env) prog (core st) = (p, r)"
    by (cases "exec_program (table_of env) prog (core st)")
  have "core (st\<lparr>stdout := []\<rparr>) = core st" by (simp add: core_def)
  then have "exec_env env prog (st\<lparr>stdout := []\<rparr>) =
      (st\<lparr>globals := globals p, loaded := loaded p, stdout := []\<rparr>, r)"
    using exec_env_empty_bodies [OF assms, of prog "st\<lparr>stdout := []\<rparr>"] x
    by (simp add: with_core_def)
  then show ?thesis using Some x by (cases r) (simp_all add: run_outputs_def)
qed

section \<open>The claims about the notebook\<close>

text \<open>
  Claim C1, as stated: the source is a single notebook with a problem statement and
  exactly two import statements as its only code.  The count is wrong: the code cell
  holds three import statements, so the number of import statements is not two.
\<close>

theorem two_import_statements_counterexample:
  "import_statement_count workshop_template \<noteq> 2"
  by (simp add: import_statement_count_def program_workshop_template imports_ast_def)

text \<open>
  Claim C1, amended: the repository is the single notebook
  \<^verbatim>\<open>workshop_template.ipynb\<close>.  It has two cells, a markdown cell that opens with the
  heading of the problem statement and a code cell that was never run.  The code is
  exactly three import statements, one \<^verbatim>\<open>import\<close> and two \<^verbatim>\<open>from ... import\<close>,
  and no token of it opens a function, a class, an anonymous function or an
  assignment.
\<close>

theorem notebook_is_statement_and_three_imports:
  "map fst repository = [''workshop_template.ipynb'']
   \<and> cells workshop_template = [Markdown_cell problem_statement, Code_cell imports_source None []]
   \<and> starts_with ''### Problem Statement'' (cell_text markdown_cell)
   \<and> program workshop_template =
        Some [[Import [Alias ''numpy'' (Some ''np'')],
               ImportFrom ''brainflow.board_shim''
                 [Alias ''BoardShim'' None, Alias ''BrainFlowInputParams'' None,
                  Alias ''BoardIds'' None],
               ImportFrom ''brainflow.data_filter''
                 [Alias ''DataFilter'' None, Alias ''FilterTypes'' None,
                  Alias ''DetrendOperations'' None, Alias ''WindowOperations'' None]]]
   \<and> import_statement_count workshop_template = 3
   \<and> \<not> list_ex (has_token (code_tokens workshop_template)) defining_tokens"
proof -
  have "\<not> list_ex (has_token (code_tokens workshop_template)) defining_tokens"
    unfolding code_tokens_workshop_template by (simp add: has_token_def defining_tokens_def)
  moreover have "import_statement_count workshop_template = 3"
    by (simp add: import_statement_count_def program_workshop_template imports_ast_def)
  moreover have "cells workshop_template = [Markdown_cell problem_statement, Code_cell imports_source None []]"
    by (simp add: workshop_template_def markdown_cell_def code_cell_def)
  moreover have "map fst repository = [''workshop_template.ipynb'']"
    by (simp add: repository_def)
  ultimately show ?thesis
    using heading program_workshop_template by (simp add: imports_ast_def)
qed






end
